theory Spec2Isabelle
  imports Main "HOL-Library.Sublist"
begin

section \<open>Python text operations used by \<^verbatim>\<open>service.py\<close>\<close>

text \<open>
  A Python \<^verbatim>\<open>str\<close> is modelled as a \<^typ>\<open>string\<close> in which every \<^typ>\<open>char\<close> is one
  code point below 256. Code points from 256 on (among them the line separators
  U+2028 and U+2029) are outside the model. Files are read and written in an encoding
  that represents every such code point (UTF-8).
\<close>

definition LF :: char where
  "LF = CHR 0x0A"

definition CR :: char where
  "CR = CHR 0x0D"

text \<open>
  A string with a NUL character: Python refuses it as a file name and as a command-line
  argument with \<^verbatim>\<open>ValueError: embedded null byte\<close>.
\<close>

definition has_nul :: "string \<Rightarrow> bool" where
  "has_nul s = (CHR 0x00 \<in> set s)"

text \<open>The line boundaries of \<^verbatim>\<open>str.splitlines\<close> below code point 256.\<close>

definition is_linebreak :: "char \<Rightarrow> bool" where
  "is_linebreak c =
     (c \<in> set [CHR 0x0A, CHR 0x0B, CHR 0x0C, CHR 0x0D, CHR 0x1C, CHR 0x1D, CHR 0x1E, CHR 0x85])"

text \<open>The characters \<^verbatim>\<open>str.strip()\<close> removes: those with \<^verbatim>\<open>str.isspace()\<close>.\<close>

definition isspace :: "char \<Rightarrow> bool" where
  "isspace c =
     (c \<in> set [CHR 0x09, CHR 0x0A, CHR 0x0B, CHR 0x0C, CHR 0x0D, CHR 0x1C, CHR 0x1D,
                CHR 0x1E, CHR 0x1F, CHR 0x20, CHR 0x85, CHR 0xA0])"

definition lstrip :: "string \<Rightarrow> string" where
  "lstrip s = dropWhile isspace s"

definition rstrip :: "string \<Rightarrow> string" where
  "rstrip s = rev (dropWhile isspace (rev s))"

definition strip :: "string \<Rightarrow> string" where
  "strip s = rstrip (lstrip s)"

text \<open>
  \<^verbatim>\<open>s.splitlines()\<close>: the lines of \<open>s\<close> without their line breaks; \<^verbatim>\<open>\r\n\<close> is one
  break; a break at the very end opens no further line. The first argument is the
  line read so far.
\<close>

fun splitlines_from :: "string \<Rightarrow> string \<Rightarrow> string list" where
  "splitlines_from cur [] = (if cur = [] then [] else [cur])"
| "splitlines_from cur [c] = (if is_linebreak c then [cur] else [cur @ [c]])"
| "splitlines_from cur (c # d # cs) =
     (if c = CR \<and> d = LF then cur # splitlines_from [] cs
      else if is_linebreak c then cur # splitlines_from [] (d # cs)
      else splitlines_from (cur @ [c]) (d # cs))"

definition splitlines :: "string \<Rightarrow> string list" where
  "splitlines s = splitlines_from [] s"

text \<open>\<^verbatim>\<open>sep.join(xs)\<close>.\<close>

fun str_join :: "string \<Rightarrow> string list \<Rightarrow> string" where
  "str_join sep [] = []"
| "str_join sep [x] = x"
| "str_join sep (x # y # ys) = x @ sep @ str_join sep (y # ys)"

text \<open>
  Reading a file in text mode translates \<^verbatim>\<open>\r\n\<close> and a lone \<^verbatim>\<open>\r\<close> to \<^verbatim>\<open>\n\<close>
  (universal newlines); writing on Linux stores the text as it is.
\<close>

fun universal_newlines :: "string \<Rightarrow> string" where
  "universal_newlines [] = []"
| "universal_newlines [c] = (if c = CR then [LF] else [c])"
| "universal_newlines (c # d # cs) =
     (if c = CR \<and> d = LF then LF # universal_newlines cs
      else if c = CR then LF # universal_newlines (d # cs)
      else c # universal_newlines (d # cs))"

section \<open>Paths and the file system\<close>

text \<open>
  A path is the string \<^verbatim>\<open>str(Path)\<close>, in the normal form pathlib keeps: no empty and
  no \<^verbatim>\<open>.\<close> component. The file system maps the paths of regular files to their text.
  Directories, permissions, links, the resolution of \<^verbatim>\<open>..\<close> and the size limits of
  the operating system are not modelled: two paths name the same file iff they are
  the same string, and every directory a path runs through exists and is writable.
\<close>

type_synonym path = string

type_synonym fs = "path \<rightharpoonup> string"

text \<open>\<^verbatim>\<open>s.split(sep)\<close> for a one-character separator; the second argument is the piece read so far.\<close>

fun split_from :: "char \<Rightarrow> string \<Rightarrow> string \<Rightarrow> string list" where
  "split_from sep cur [] = [cur]"
| "split_from sep cur (c # cs) =
     (if c = sep then cur # split_from sep [] cs else split_from sep (cur @ [c]) cs)"

text \<open>
  How pathlib reads a POSIX path: the root (\<^verbatim>\<open>//\<close> when the string starts with exactly
  two slashes, else \<^verbatim>\<open>/\<close> when it starts with one), and the components between
  slashes, without the empty ones and the \<^verbatim>\<open>.\<close> ones.
\<close>

definition path_root :: "string \<Rightarrow> string" where
  "path_root p =
     (if prefix ''//'' p \<and> \<not> prefix ''///'' p then ''//''
      else if prefix ''/'' p then ''/'' else [])"

definition path_parts :: "string \<Rightarrow> string list" where
  "path_parts p = filter (\<lambda>x. x \<noteq> [] \<and> x \<noteq> ''.'') (split_from (CHR ''/'') [] p)"

text \<open>\<^verbatim>\<open>str(Path(p))\<close>.\<close>

definition normpath :: "string \<Rightarrow> path" where
  "normpath p =
     (if path_root p = [] \<and> path_parts p = [] then ''.''
      else path_root p @ str_join ''/'' (path_parts p))"

text \<open>
  \<^verbatim>\<open>base / seg\<close> of pathlib: an absolute segment replaces the base, and the result is
  kept in normal form.
\<close>

definition joinpath :: "path \<Rightarrow> string \<Rightarrow> path" where
  "joinpath base seg =
     normpath
       (if prefix ''/'' seg then seg
        else if base = [] then seg
        else if suffix ''/'' base then base @ seg
        else base @ ''/'' @ seg)"

text \<open>\<^verbatim>\<open>Path.name\<close>: the final component, empty when there is none.\<close>

definition path_name :: "path \<Rightarrow> string" where
  "path_name p = (case rev (path_parts p) of [] \<Rightarrow> [] | x # _ \<Rightarrow> x)"

definition BASE_DIR :: path where
  "BASE_DIR = ''/etc/openvpn/server''"

definition EASYRSA_PATH :: path where
  "EASYRSA_PATH = joinpath BASE_DIR ''easy-rsa''"

definition EASYRSA_BIN :: path where
  "EASYRSA_BIN = joinpath EASYRSA_PATH ''easyrsa''"

definition OUTPUT_DIR :: path where
  "OUTPUT_DIR = joinpath BASE_DIR ''clients''"

definition BASE_OVPN_TEMPLATE :: path where
  "BASE_OVPN_TEMPLATE = joinpath BASE_DIR ''client-common.txt''"

definition TLS_KEY :: path where
  "TLS_KEY = joinpath BASE_DIR ''tc.key''"

definition BLOCKLIST_PATH :: path where
  "BLOCKLIST_PATH = joinpath BASE_DIR ''blocked_clients.txt''"

definition CRL_PATH :: path where
  "CRL_PATH = joinpath BASE_DIR ''crl.pem''"

text \<open>
  \<^verbatim>\<open>TLS_TAG\<close> and \<^verbatim>\<open>ADD_KEY_DIRECTION\<close> are computed once from the name of the key file.
  The key file is the one setting of the PATHS block that selects the trust mode, so
  both take it as an argument, a path; the source ships \<^const>\<open>TLS_KEY\<close>.
\<close>

definition TLS_TAG :: "path \<Rightarrow> string" where
  "TLS_TAG tls_key = (if prefix ''tc'' (path_name tls_key) then ''tls-crypt'' else ''tls-auth'')"

definition ADD_KEY_DIRECTION :: "path \<Rightarrow> bool" where
  "ADD_KEY_DIRECTION tls_key = (TLS_TAG tls_key = ''tls-auth'')"

definition pki_dir :: path where
  "pki_dir = joinpath EASYRSA_PATH ''pki''"

section \<open>The world: files, subprocesses, the log\<close>

text \<open>The exceptions the service raises or lets through.\<close>

datatype error =
    CalledProcessError int "string list"
  | RuntimeError string
  | FileNotFoundError path
  | ValueError string

datatype level = INFO | WARNING | ERROR

text \<open>
  The messages the code logs at level INFO and above (the logger's level unless the
  environment sets \<^verbatim>\<open>DEBUG\<close>), one constructor per format string.
\<close>

datatype log_msg =
    CommandFailed int
  | LogStdout string
  | LogStderr string
  | GeneratedConfig string path
  | RevokedClient string
  | AlreadySuspended string
  | Suspended string
  | Unsuspended string
  | NoSuspendedClients
  | SuspendedClients "string list"
  | NoApiKeySet
  | InvalidApiKeyAttempt
  | ApiRequest string string
  | ApiFailed string string error

record world =
  files :: fs
  procs :: "string list list"
  log :: "(level \<times> log_msg) list"

text \<open>
  What a run of the Easy-RSA executable gives back: its exit status, its output, and
  the file system it leaves.
\<close>

record proc_result =
  returncode :: int
  proc_stdout :: string
  proc_stderr :: string
  files_after :: fs

text \<open>
  The PKI backend: the Easy-RSA executable, run with a command line and an optional
  standard input on a file system. It is a parameter of every operation that spawns
  it. The executable exists and can be spawned. The field \<open>procs\<close> of the world
  lists the command lines for which a process was started, in order.
\<close>

type_synonym easyrsa = "string list \<Rightarrow> string option \<Rightarrow> fs \<Rightarrow> proc_result"

type_synonym ('e, 'a) io = "world \<Rightarrow> ('e + 'a) \<times> world"

definition io_return :: "'a \<Rightarrow> ('e, 'a) io" where
  "io_return x w = (Inr x, w)"

definition io_raise :: "'e \<Rightarrow> ('e, 'a) io" where
  "io_raise e w = (Inl e, w)"

definition io_bind :: "('e, 'a) io \<Rightarrow> ('a \<Rightarrow> ('e, 'b) io) \<Rightarrow> ('e, 'b) io" where
  "io_bind m f w = (case m w of (Inl e, w') \<Rightarrow> (Inl e, w') | (Inr x, w') \<Rightarrow> f x w')"

definition io_then :: "('e, 'a) io \<Rightarrow> ('e, 'b) io \<Rightarrow> ('e, 'b) io" where
  "io_then m k = io_bind m (\<lambda>_. k)"

text \<open>A \<^verbatim>\<open>for\<close> loop over a tuple of constants.\<close>

fun io_foreach :: "('a \<Rightarrow> ('e, unit) io) \<Rightarrow> 'a list \<Rightarrow> ('e, unit) io" where
  "io_foreach f [] = io_return ()"
| "io_foreach f (x # xs) = io_then (f x) (io_foreach f xs)"

definition logger :: "level \<Rightarrow> log_msg \<Rightarrow> ('e, unit) io" where
  "logger lv m w = (Inr (), w\<lparr>log := log w @ [(lv, m)]\<rparr>)"

definition path_exists :: "path \<Rightarrow> ('e, bool) io" where
  "path_exists p w = (Inr (files w p \<noteq> None), w)"

text \<open>
  \<^verbatim>\<open>touch\<close>, \<^verbatim>\<open>exists\<close> and \<^verbatim>\<open>copy2\<close> are called on constant paths only; reading,
  writing and unlinking also meet paths built from the client name or the key file,
  and refuse one with a NUL character.
\<close>

definition read_text :: "path \<Rightarrow> (error, string) io" where
  "read_text p w =
     (if has_nul p then (Inl (ValueError ''embedded null byte''), w)
      else case files w p of None \<Rightarrow> (Inl (FileNotFoundError p), w)
           | Some c \<Rightarrow> (Inr (universal_newlines c), w))"

definition write_text :: "path \<Rightarrow> string \<Rightarrow> (error, unit) io" where
  "write_text p s w =
     (if has_nul p then (Inl (ValueError ''embedded null byte''), w)
      else (Inr (), w\<lparr>files := (files w)(p \<mapsto> s)\<rparr>))"

text \<open>\<^verbatim>\<open>Path.touch(exist_ok=True)\<close>: an absent file is created empty.\<close>

definition touch :: "path \<Rightarrow> (error, unit) io" where
  "touch p w =
     (case files w p of None \<Rightarrow> (Inr (), w\<lparr>files := (files w)(p \<mapsto> [])\<rparr>)
      | Some _ \<Rightarrow> (Inr (), w))"

text \<open>\<^verbatim>\<open>Path.unlink(missing_ok=True)\<close>.\<close>

definition unlink_missing_ok :: "path \<Rightarrow> (error, unit) io" where
  "unlink_missing_ok p w =
     (if has_nul p then (Inl (ValueError ''embedded null byte''), w)
      else (Inr (), w\<lparr>files := (files w)(p := None)\<rparr>))"

text \<open>\<^verbatim>\<open>shutil.copy2(src, dst)\<close> between two file paths.\<close>

definition copy2 :: "path \<Rightarrow> path \<Rightarrow> (error, unit) io" where
  "copy2 src dst w =
     (case files w src of None \<Rightarrow> (Inl (FileNotFoundError src), w)
      | Some c \<Rightarrow> (Inr (), w\<lparr>files := (files w)(dst \<mapsto> c)\<rparr>))"

section \<open>\<^verbatim>\<open>service.py\<close>\<close>

text \<open>
  \<^verbatim>\<open>_run_easy_rsa(args)\<close>. Commands that may ask for confirmation are fed
  \<^verbatim>\<open>yes\n\<close> through \<^verbatim>\<open>Popen\<close>; the others go through \<^verbatim>\<open>subprocess.run(check=True)\<close>.
  Either way a non-zero exit status raises \<^verbatim>\<open>CalledProcessError\<close>, which the
  handler logs and re-raises. The exception raised by hand after \<^verbatim>\<open>Popen\<close> carries no
  output, so the handler logs only the status there. An argument with a NUL character
  makes \<^verbatim>\<open>Popen\<close> and \<^verbatim>\<open>subprocess.run\<close> raise \<^verbatim>\<open>ValueError\<close> before any process is
  started; the handler does not catch it.
\<close>

definition run_easy_rsa :: "easyrsa \<Rightarrow> string list \<Rightarrow> (error, unit) io" where
  "run_easy_rsa backend args w =
     (let cmd = EASYRSA_BIN # args in
      if list_ex has_nul cmd then (Inl (ValueError ''embedded null byte''), w)
      else if ''build-client-full'' \<in> set args \<or> ''revoke'' \<in> set args then
        (let r = backend cmd (Some (''yes'' @ [LF])) (files w);
             w1 = w\<lparr>files := files_after r, procs := procs w @ [cmd]\<rparr>
         in if returncode r \<noteq> 0 then
              (Inl (CalledProcessError (returncode r) cmd),
               w1\<lparr>log := log w1 @
                  [(ERROR, CommandFailed (returncode r)),
                   (ERROR, LogStdout (proc_stdout r)),
                   (ERROR, LogStderr (proc_stderr r)),
                   (ERROR, CommandFailed (returncode r))]\<rparr>)
            else (Inr (), w1))
      else
        (let r = backend cmd None (files w);
             w1 = w\<lparr>files := files_after r, procs := procs w @ [cmd]\<rparr>
         in if returncode r \<noteq> 0 then
              (Inl (CalledProcessError (returncode r) cmd),
               w1\<lparr>log := log w1 @
                  [(ERROR, CommandFailed (returncode r))] @
                  (if proc_stdout r \<noteq> [] then [(ERROR, LogStdout (proc_stdout r))] else []) @
                  (if proc_stderr r \<noteq> [] then [(ERROR, LogStderr (proc_stderr r))] else [])\<rparr>)
            else (Inr (), w1)))"

text \<open>The run of the executable that \<^verbatim>\<open>_run_easy_rsa(args)\<close> makes on a world.\<close>

definition run_result :: "easyrsa \<Rightarrow> string list \<Rightarrow> world \<Rightarrow> proc_result" where
  "run_result backend args w =
     backend (EASYRSA_BIN # args)
       (if ''build-client-full'' \<in> set args \<or> ''revoke'' \<in> set args
        then Some (''yes'' @ [LF]) else None)
       (files w)"

text \<open>\<^verbatim>\<open>_refresh_crl()\<close>.\<close>

definition refresh_crl :: "(error, unit) io" where
  "refresh_crl =
     io_bind (path_exists (joinpath pki_dir ''crl.pem'')) (\<lambda>ex.
       if \<not> ex then io_raise (RuntimeError ''crl.pem not found after gen-crl'')
       else copy2 (joinpath pki_dir ''crl.pem'') CRL_PATH)"

text \<open>\<^verbatim>\<open>embed(tag, path)\<close>, on the text read from the path.\<close>

definition embed_text :: "string \<Rightarrow> string \<Rightarrow> string" where
  "embed_text tag content =
     ''<'' @ tag @ ''>'' @ [LF] @ strip content @ [LF] @ ''</'' @ tag @ ''>'' @ [LF]"

definition embed :: "string \<Rightarrow> path \<Rightarrow> (error, string) io" where
  "embed tag p = io_bind (read_text p) (\<lambda>content. io_return (embed_text tag content))"

text \<open>
  The profile text \<^verbatim>\<open>cfg\<close> that \<^verbatim>\<open>generate_client\<close> assembles, as a function of the
  texts it reads: the template, then the four blocks, then the direction line when
  \<^verbatim>\<open>ADD_KEY_DIRECTION\<close> holds.
\<close>

definition render :: "path \<Rightarrow> string \<Rightarrow> string \<Rightarrow> string \<Rightarrow> string \<Rightarrow> string \<Rightarrow> string" where
  "render tls_key template ca cert key tls =
     (rstrip template @ [LF]) @ embed_text ''ca'' ca @ embed_text ''cert'' cert @
     embed_text ''key'' key @ embed_text (TLS_TAG tls_key) tls @
     (if ADD_KEY_DIRECTION tls_key then ''key-direction 1'' @ [LF] else [])"

text \<open>
  \<^verbatim>\<open>generate_client(name, password)\<close>, for a deployment with key file \<open>tls_key\<close>.
  \<^verbatim>\<open>OUTPUT_DIR.mkdir(parents=True, exist_ok=True)\<close> changes no file.
\<close>

definition generate_client_with ::
  "path \<Rightarrow> easyrsa \<Rightarrow> string \<Rightarrow> bool \<Rightarrow> (error, path) io" where
  "generate_client_with tls_key backend name password =
     io_then
       (run_easy_rsa backend
          ([''build-client-full'', name] @ (if \<not> password then [''nopass''] else [])))
       (io_bind (read_text BASE_OVPN_TEMPLATE) (\<lambda>t.
        let template = rstrip t @ [LF] in
        io_bind (embed ''ca'' (joinpath pki_dir ''ca.crt'')) (\<lambda>b1.
        io_bind (embed ''cert'' (joinpath (joinpath pki_dir ''issued'') (name @ ''.crt''))) (\<lambda>b2.
        io_bind (embed ''key'' (joinpath (joinpath pki_dir ''private'') (name @ ''.key''))) (\<lambda>b3.
        io_bind (embed (TLS_TAG tls_key) tls_key) (\<lambda>b4.
        let cfg = template @ b1 @ b2 @ b3 @ b4 @
                  (if ADD_KEY_DIRECTION tls_key then ''key-direction 1'' @ [LF] else []);
            out = joinpath OUTPUT_DIR (name @ ''.ovpn'')
        in io_then (write_text out cfg)
             (io_then (logger INFO (GeneratedConfig name out)) (io_return out))))))))"

definition generate_client :: "easyrsa \<Rightarrow> string \<Rightarrow> bool \<Rightarrow> (error, path) io" where
  "generate_client = generate_client_with TLS_KEY"

text \<open>\<^verbatim>\<open>suspend_client(name)\<close>.\<close>

definition suspend_client :: "string \<Rightarrow> (error, unit) io" where
  "suspend_client name =
     io_then (touch BLOCKLIST_PATH)
       (io_bind (read_text BLOCKLIST_PATH) (\<lambda>t.
        let lines = splitlines t in
        io_then (if name \<in> set lines then logger INFO (AlreadySuspended name) else io_return ())
          (io_then (write_text BLOCKLIST_PATH (str_join [LF] (lines @ [name]) @ [LF]))
             (logger INFO (Suspended name)))))"

text \<open>\<^verbatim>\<open>unsuspend_client(name)\<close>.\<close>

definition unsuspend_client :: "string \<Rightarrow> (error, unit) io" where
  "unsuspend_client name =
     io_bind (path_exists BLOCKLIST_PATH) (\<lambda>ex.
       if \<not> ex then io_return ()
       else
         io_bind (read_text BLOCKLIST_PATH) (\<lambda>t.
         let lines = filter (\<lambda>line. line \<noteq> name) (splitlines t) in
         io_then
           (write_text BLOCKLIST_PATH (str_join [LF] lines @ (if lines \<noteq> [] then [LF] else [])))
           (logger INFO (Unsuspended name))))"

text \<open>\<^verbatim>\<open>revoke_client(name)\<close>.\<close>

definition revoke_client :: "easyrsa \<Rightarrow> string \<Rightarrow> (error, unit) io" where
  "revoke_client backend name =
     io_then (run_easy_rsa backend [''revoke'', name])
       (io_then (run_easy_rsa backend [''gen-crl''])
          (io_then refresh_crl
             (io_then
                (io_foreach
                   (\<lambda>sub. unlink_missing_ok (joinpath (joinpath pki_dir sub) (name @ ''.crt'')))
                   [''issued'', ''private'', ''reqs''])
                (io_then (unlink_missing_ok (joinpath OUTPUT_DIR (name @ ''.ovpn'')))
                   (io_then (unsuspend_client name) (logger INFO (RevokedClient name)))))))"

text \<open>
  \<^verbatim>\<open>list_blocked()\<close>. The source returns nothing and prints one line per name; the
  result here is the list of the names it prints, in order (none on the
  \<^verbatim>\<open>No suspended clients\<close> branch).
\<close>

definition list_blocked :: "(error, string list) io" where
  "list_blocked =
     io_bind (path_exists BLOCKLIST_PATH) (\<lambda>ex.
       if \<not> ex then io_then (logger INFO NoSuspendedClients) (io_return [])
       else
         io_bind (read_text BLOCKLIST_PATH) (\<lambda>t.
           if strip t = [] then io_then (logger INFO NoSuspendedClients) (io_return [])
           else
             io_bind (read_text BLOCKLIST_PATH) (\<lambda>t2.
             let blocked_clients = splitlines t2 in
             io_then (logger INFO (SuspendedClients blocked_clients))
               (io_return blocked_clients))))"

section \<open>Sequences of suspend and unsuspend calls\<close>

datatype call = Suspend string | Unsuspend string

fun run_calls :: "call list \<Rightarrow> (error, unit) io" where
  "run_calls [] = io_return ()"
| "run_calls (c # cs) =
     io_then (case c of Suspend n \<Rightarrow> suspend_client n | Unsuspend n \<Rightarrow> unsuspend_client n)
       (run_calls cs)"

section \<open>The HTTP handlers of \<^verbatim>\<open>api.py\<close> and \<^verbatim>\<open>api/routers/clients.py\<close>\<close>

text \<open>
  Both files hold the same handlers over the same \<^verbatim>\<open>get_api_key\<close>; the router attaches
  it to every route, \<^verbatim>\<open>api.py\<close> to each handler. The framework runs the dependency
  before the handler's body, and \<^verbatim>\<open>APIKeyHeader\<close> before \<^verbatim>\<open>get_api_key\<close>, whose
  argument it supplies. \<open>API_KEY\<close> is the configured key (empty when the environment
  sets none), \<open>header\<close> the value of the \<^verbatim>\<open>X-API-Key\<close> header of the request, if it
  has one.
\<close>

datatype http_detail = DetailText string | DetailStr error

datatype http_exception = HTTPException nat http_detail

record ClientRequest =
  req_name :: string
  req_use_password :: bool

record ClientResponse =
  resp_name :: string
  resp_message :: string
  resp_config_path :: "string option"

text \<open>
  \<^verbatim>\<open>api_key_header = APIKeyHeader(name="X-API-Key")\<close>: the framework's class, with its
  default \<^verbatim>\<open>auto_error\<close>, reads the header and raises when the request has none or an
  empty one (\<^verbatim>\<open>if not api_key: raise HTTPException(...)\<close>). The exception it raises
  there is the framework's own (\<^verbatim>\<open>Not authenticated\<close>, with a status that depends on
  the release) and is the argument \<open>refusal\<close>.
\<close>

definition api_key_header :: "http_exception \<Rightarrow> string option \<Rightarrow> (http_exception, string) io" where
  "api_key_header refusal header =
     (case header of
        None \<Rightarrow> io_raise refusal
      | Some v \<Rightarrow> if v = [] then io_raise refusal else io_return v)"

definition get_api_key :: "string \<Rightarrow> string \<Rightarrow> (http_exception, string) io" where
  "get_api_key API_KEY api_key =
     (if API_KEY = [] then io_then (logger WARNING NoApiKeySet) (io_return api_key)
      else if api_key \<noteq> API_KEY then
        io_then (logger WARNING InvalidApiKeyAttempt)
          (io_raise (HTTPException 401 (DetailText ''Invalid API Key'')))
      else io_return api_key)"

text \<open>\<^verbatim>\<open>Depends(get_api_key)\<close> over \<^verbatim>\<open>Security(api_key_header)\<close>, as the framework resolves it.\<close>

definition authenticate ::
  "http_exception \<Rightarrow> string \<Rightarrow> string option \<Rightarrow> (http_exception, string) io" where
  "authenticate refusal API_KEY header =
     io_bind (api_key_header refusal header) (get_api_key API_KEY)"

text \<open>
  \<^verbatim>\<open>try: ... except Exception as e: logger.error(...); raise HTTPException(500, str(e))\<close>
  around a call of the service.
\<close>

definition try_service ::
  "(error, 'a) io \<Rightarrow> ('a \<Rightarrow> 'b) \<Rightarrow> (error \<Rightarrow> log_msg) \<Rightarrow> (http_exception, 'b) io" where
  "try_service m ok failed w =
     (case m w of
        (Inr x, w') \<Rightarrow> (Inr (ok x), w')
      | (Inl e, w') \<Rightarrow>
          (Inl (HTTPException 500 (DetailStr e)), w'\<lparr>log := log w' @ [(ERROR, failed e)]\<rparr>))"

text \<open>The bodies of the four handlers of the mutating routes.\<close>

definition create_client_body :: "easyrsa \<Rightarrow> ClientRequest \<Rightarrow> (http_exception, ClientResponse) io" where
  "create_client_body backend client =
     io_then (logger INFO (ApiRequest ''create client'' (req_name client)))
       (try_service (generate_client backend (req_name client) (req_use_password client))
          (\<lambda>config_path.
             \<lparr>resp_name = req_name client,
              resp_message = ''Client '' @ req_name client @ '' created successfully'',
              resp_config_path = Some config_path\<rparr>)
          (ApiFailed ''create client'' (req_name client)))"

definition revoke_client_body :: "easyrsa \<Rightarrow> string \<Rightarrow> (http_exception, ClientResponse) io" where
  "revoke_client_body backend name =
     io_then (logger INFO (ApiRequest ''revoke client'' name))
       (try_service (revoke_client backend name)
          (\<lambda>_. \<lparr>resp_name = name,
                resp_message = ''Client '' @ name @ '' revoked successfully'',
                resp_config_path = None\<rparr>)
          (ApiFailed ''revoke client'' name))"

definition suspend_client_body :: "string \<Rightarrow> (http_exception, ClientResponse) io" where
  "suspend_client_body name =
     io_then (logger INFO (ApiRequest ''suspend client'' name))
       (try_service (suspend_client name)
          (\<lambda>_. \<lparr>resp_name = name,
                resp_message = ''Client '' @ name @ '' suspended successfully'',
                resp_config_path = None\<rparr>)
          (ApiFailed ''suspend client'' name))"

definition unsuspend_client_body :: "string \<Rightarrow> (http_exception, ClientResponse) io" where
  "unsuspend_client_body name =
     io_then (logger INFO (ApiRequest ''unsuspend client'' name))
       (try_service (unsuspend_client name)
          (\<lambda>_. \<lparr>resp_name = name,
                resp_message = ''Client '' @ name @ '' unsuspended successfully'',
                resp_config_path = None\<rparr>)
          (ApiFailed ''unsuspend client'' name))"

text \<open>The four routes: the dependency, then the body.\<close>

definition api_create_client ::
  "http_exception \<Rightarrow> string \<Rightarrow> easyrsa \<Rightarrow> string option \<Rightarrow> ClientRequest \<Rightarrow>
   (http_exception, ClientResponse) io" where
  "api_create_client refusal API_KEY backend header client =
     io_then (authenticate refusal API_KEY header) (create_client_body backend client)"

definition api_revoke_client ::
  "http_exception \<Rightarrow> string \<Rightarrow> easyrsa \<Rightarrow> string option \<Rightarrow> string \<Rightarrow>
   (http_exception, ClientResponse) io" where
  "api_revoke_client refusal API_KEY backend header name =
     io_then (authenticate refusal API_KEY header) (revoke_client_body backend name)"

definition api_suspend_client ::
  "http_exception \<Rightarrow> string \<Rightarrow> string option \<Rightarrow> string \<Rightarrow> (http_exception, ClientResponse) io" where
  "api_suspend_client refusal API_KEY header name =
     io_then (authenticate refusal API_KEY header) (suspend_client_body name)"

definition api_unsuspend_client ::
  "http_exception \<Rightarrow> string \<Rightarrow> string option \<Rightarrow> string \<Rightarrow> (http_exception, ClientResponse) io" where
  "api_unsuspend_client refusal API_KEY header name =
     io_then (authenticate refusal API_KEY header) (unsuspend_client_body name)"

section \<open>Sample worlds and backends\<close>

definition empty_world :: world where
  "empty_world = \<lparr>files = Map.empty, procs = [], log = []\<rparr>"

text \<open>A server on which \<open>alice\<close> has been issued a certificate and is suspended.\<close>

definition alice_world :: world where
  "alice_world =
     \<lparr>files =
        [BLOCKLIST_PATH \<mapsto> ''alice'' @ [LF],
         CRL_PATH \<mapsto> ''OLD CRL'',
         joinpath (joinpath pki_dir ''issued'') ''alice.crt'' \<mapsto> ''CERT'',
         joinpath (joinpath pki_dir ''private'') ''alice.key'' \<mapsto> ''KEY'',
         joinpath OUTPUT_DIR ''alice.ovpn'' \<mapsto> ''PROFILE''],
      procs = [], log = []\<rparr>"

text \<open>A backend whose every run exits with status 1 and touches no file.\<close>

definition failing_backend :: easyrsa where
  "failing_backend cmd inp f =
     \<lparr>returncode = 1, proc_stdout = [], proc_stderr = ''error'', files_after = f\<rparr>"

text \<open>A backend whose every run exits with status 0 and touches no file.\<close>

definition idle_backend :: easyrsa where
  "idle_backend cmd inp f =
     \<lparr>returncode = 0, proc_stdout = [], proc_stderr = [], files_after = f\<rparr>"

text \<open>
  A backend whose every run exits with status 0; \<^verbatim>\<open>gen-crl\<close> writes the revocation
  list, and no run touches another file.
\<close>

definition crl_backend :: easyrsa where
  "crl_backend cmd inp f =
     \<lparr>returncode = 0, proc_stdout = [], proc_stderr = [],
      files_after =
        (if ''gen-crl'' \<in> set cmd then f(joinpath pki_dir ''crl.pem'' \<mapsto> ''NEW CRL'') else f)\<rparr>"

text \<open>A backend that revokes but whose \<^verbatim>\<open>gen-crl\<close> exits with status 1.\<close>

definition gencrl_failing_backend :: easyrsa where
  "gencrl_failing_backend cmd inp f =
     \<lparr>returncode = (if ''gen-crl'' \<in> set cmd then 1 else 0),
      proc_stdout = [], proc_stderr = [], files_after = f\<rparr>"

text \<open>
  A backend that revokes as Easy-RSA 3 does, moving the certificate and the key of
  \<open>alice\<close> out of \<^verbatim>\<open>issued\<close> and \<^verbatim>\<open>private\<close>, and whose \<^verbatim>\<open>gen-crl\<close> exits with
  status 1.
\<close>

definition moving_backend :: easyrsa where
  "moving_backend cmd inp f =
     (if ''revoke'' \<in> set cmd then
        \<lparr>returncode = 0, proc_stdout = [], proc_stderr = [],
         files_after =
           f(joinpath (joinpath pki_dir ''issued'') ''alice.crt'' := None,
             joinpath (joinpath pki_dir ''private'') ''alice.key'' := None)\<rparr>
      else \<lparr>returncode = 1, proc_stdout = [], proc_stderr = ''error'', files_after = f\<rparr>)"

text \<open>The exception of the framework for a request without a key, in one release.\<close>

definition not_authenticated :: http_exception where
  "not_authenticated = HTTPException 403 (DetailText ''Not authenticated'')"

text \<open>A server holding the template and the credentials of \<open>bob\<close>, each one line.\<close>

definition render_world :: world where
  "render_world =
     \<lparr>files =
        [BASE_OVPN_TEMPLATE \<mapsto> ''T'' @ [LF],
         joinpath pki_dir ''ca.crt'' \<mapsto> ''X'',
         joinpath (joinpath pki_dir ''issued'') ''bob.crt'' \<mapsto> ''X'',
         joinpath (joinpath pki_dir ''private'') ''bob.key'' \<mapsto> ''X'',
         TLS_KEY \<mapsto> ''X''],
      procs = [], log = []\<rparr>"

text \<open>The same server with a template that itself holds the direction line.\<close>

definition marked_world :: world where
  "marked_world =
     render_world\<lparr>files := (files render_world)(BASE_OVPN_TEMPLATE \<mapsto> ''key-direction 1'' @ [LF])\<rparr>"

text \<open>The same server with a key file of the other mode, \<^verbatim>\<open>ta.key\<close>.\<close>

definition TA_KEY :: path where
  "TA_KEY = joinpath BASE_DIR ''ta.key''"

definition auth_world :: world where
  "auth_world = render_world\<lparr>files := (files render_world)(TA_KEY \<mapsto> ''X'')\<rparr>"

section \<open>Facts about the text operations\<close>

lemma is_linebreak_LF: "is_linebreak LF"
  by (simp add: is_linebreak_def LF_def)

lemma is_linebreak_CR: "is_linebreak CR"
  by (simp add: is_linebreak_def CR_def)

lemma splitlines_from_no_break:
  "list_all (\<lambda>c. \<not> is_linebreak c) cur \<Longrightarrow>
   list_all (list_all (\<lambda>c. \<not> is_linebreak c)) (splitlines_from cur s)"
  by (induction cur s rule: splitlines_from.induct) simp_all

lemma splitlines_no_break:
  "list_all (list_all (\<lambda>c. \<not> is_linebreak c)) (splitlines s)"
  by (simp add: splitlines_def splitlines_from_no_break)

lemma universal_newlines_id:
  "CR \<notin> set s \<Longrightarrow> universal_newlines s = s"
  by (induction s rule: universal_newlines.induct) auto

lemma splitlines_from_line:
  "list_all (\<lambda>c. \<not> is_linebreak c) l \<Longrightarrow>
   splitlines_from cur (l @ LF # rest) = (cur @ l) # splitlines_from [] rest"
proof (induction l arbitrary: cur)
  case Nil
  show ?case by (cases rest) (simp_all add: is_linebreak_LF, simp add: LF_def CR_def)
next
  case (Cons a l)
  have a: "\<not> is_linebreak a" "a \<noteq> CR" using Cons.prems is_linebreak_CR by auto
  obtain d ds where tl: "l @ LF # rest = d # ds" by (cases "l @ LF # rest") auto
  have "splitlines_from cur ((a # l) @ LF # rest) = splitlines_from (cur @ [a]) (l @ LF # rest)"
    using a tl by simp
  also have "\<dots> = ((cur @ [a]) @ l) # splitlines_from [] rest"
    using Cons.IH [of "cur @ [a]"] Cons.prems by simp
  finally show ?case by simp
qed

lemma splitlines_join:
  "ls \<noteq> [] \<Longrightarrow> list_all (list_all (\<lambda>c. \<not> is_linebreak c)) ls \<Longrightarrow>
   splitlines (str_join [LF] ls @ [LF]) = ls"
proof (induction "[LF]" ls rule: str_join.induct)
  case 1
  then show ?case by simp
next
  case (2 x)
  then show ?case using splitlines_from_line [of x "[]" "[]"] by (simp add: splitlines_def)
next
  case (3 x y ys)
  have "splitlines (str_join [LF] (x # y # ys) @ [LF]) =
        splitlines_from [] (x @ LF # (str_join [LF] (y # ys) @ [LF]))"
    by (simp add: splitlines_def)
  also have "\<dots> = x # splitlines (str_join [LF] (y # ys) @ [LF])"
    using splitlines_from_line [of x "[]"] "3.prems" by (simp add: splitlines_def)
  finally show ?case using 3 by simp
qed

lemma str_join_no_CR:
  "list_all (list_all (\<lambda>c. \<not> is_linebreak c)) ls \<Longrightarrow> CR \<notin> set (str_join [LF] ls)"
proof (induction "[LF]" ls rule: str_join.induct)
  case 1 then show ?case by simp
next
  case (2 x) then show ?case using is_linebreak_CR by (auto simp: list_all_iff)
next
  case (3 x y ys) then show ?case using is_linebreak_CR by (auto simp: list_all_iff LF_def CR_def)
qed

section \<open>Facts about the operations\<close>

lemmas io_defs = io_bind_def io_then_def io_return_def io_raise_def logger_def path_exists_def
  read_text_def write_text_def touch_def unlink_missing_ok_def copy2_def

lemma no_nul_EASYRSA_BIN [simp]: "\<not> has_nul EASYRSA_BIN"
  by code_simp

lemma no_nul_BLOCKLIST_PATH [simp]: "\<not> has_nul BLOCKLIST_PATH"
  by code_simp

lemma no_nul_BASE_OVPN_TEMPLATE [simp]: "\<not> has_nul BASE_OVPN_TEMPLATE"
  by code_simp

lemma no_nul_ca_crt [simp]: "\<not> has_nul (joinpath pki_dir ''ca.crt'')"
  by code_simp

lemma no_nul_words [simp]:
  "\<not> has_nul ''revoke''" "\<not> has_nul ''gen-crl''" "\<not> has_nul ''build-client-full''"
  "\<not> has_nul ''nopass''"
  by (simp_all add: has_nul_def)

lemma io_then_Inl:
  "fst (m w) = Inl e \<Longrightarrow> io_then m k w = (Inl e, snd (m w))"
  by (cases "m w") (simp add: io_then_def io_bind_def)

lemma io_then_Inr:
  "fst (m w) = Inr x \<Longrightarrow> io_then m k w = k (snd (m w))"
  by (cases "m w") (simp add: io_then_def io_bind_def)

lemma run_easy_rsa_nul:
  "list_ex has_nul args \<Longrightarrow>
   run_easy_rsa backend args w = (Inl (ValueError ''embedded null byte''), w)"
  by (simp add: run_easy_rsa_def Let_def)

lemma run_easy_rsa_failed:
  "\<not> list_ex has_nul args \<Longrightarrow> returncode (run_result backend args w) \<noteq> 0 \<Longrightarrow>
   fst (run_easy_rsa backend args w) =
     Inl (CalledProcessError (returncode (run_result backend args w)) (EASYRSA_BIN # args))"
  by (cases "''build-client-full'' \<in> set args \<or> ''revoke'' \<in> set args")
    (simp_all add: run_easy_rsa_def run_result_def Let_def)

lemma run_easy_rsa_ok:
  "\<not> list_ex has_nul args \<Longrightarrow> returncode (run_result backend args w) = 0 \<Longrightarrow>
   fst (run_easy_rsa backend args w) = Inr ()"
  by (cases "''build-client-full'' \<in> set args \<or> ''revoke'' \<in> set args")
    (simp_all add: run_easy_rsa_def run_result_def Let_def)

lemma run_easy_rsa_files:
  "\<not> list_ex has_nul args \<Longrightarrow>
   files (snd (run_easy_rsa backend args w)) = files_after (run_result backend args w)"
  by (cases "''build-client-full'' \<in> set args \<or> ''revoke'' \<in> set args")
    (simp_all add: run_easy_rsa_def run_result_def Let_def)

lemma run_easy_rsa_procs:
  "\<not> list_ex has_nul args \<Longrightarrow>
   procs (snd (run_easy_rsa backend args w)) = procs w @ [EASYRSA_BIN # args]"
  by (cases "''build-client-full'' \<in> set args \<or> ''revoke'' \<in> set args")
    (simp_all add: run_easy_rsa_def Let_def)

lemma run_easy_rsa_Inr:
  assumes "fst (run_easy_rsa backend args w) = Inr x"
  shows "\<not> list_ex has_nul args"
proof
  assume "list_ex has_nul args"
  then have "run_easy_rsa backend args w = (Inl (ValueError ''embedded null byte''), w)"
    by (rule run_easy_rsa_nul)
  then show False using assms by simp
qed

lemma suspend_client_appends:
  "suspend_client name w =
     (Inr (),
      w\<lparr>files := (files w)(BLOCKLIST_PATH \<mapsto>
           str_join [LF]
             (splitlines (universal_newlines (case files w BLOCKLIST_PATH of None \<Rightarrow> [] | Some c \<Rightarrow> c))
              @ [name]) @ [LF]),
        log := log w @
           (if name \<in> set (splitlines (universal_newlines
                  (case files w BLOCKLIST_PATH of None \<Rightarrow> [] | Some c \<Rightarrow> c)))
            then [(INFO, AlreadySuspended name)] else []) @ [(INFO, Suspended name)]\<rparr>)"
  by (cases "files w BLOCKLIST_PATH") (simp_all add: suspend_client_def io_defs Let_def)

lemma unsuspend_client_absent:
  "files w BLOCKLIST_PATH = None \<Longrightarrow> unsuspend_client name w = (Inr (), w)"
  by (simp add: unsuspend_client_def io_defs)

lemma unsuspend_client_present:
  "files w BLOCKLIST_PATH = Some c \<Longrightarrow>
   unsuspend_client name w =
     (Inr (),
      w\<lparr>files := (files w)(BLOCKLIST_PATH \<mapsto>
           str_join [LF] (filter (\<lambda>line. line \<noteq> name) (splitlines (universal_newlines c))) @
           (if filter (\<lambda>line. line \<noteq> name) (splitlines (universal_newlines c)) \<noteq> [] then [LF] else [])),
        log := log w @ [(INFO, Unsuspended name)]\<rparr>)"
  by (simp add: unsuspend_client_def io_defs Let_def)

lemma unsuspend_client_procs:
  "fst (unsuspend_client name w) = Inr () \<and> procs (snd (unsuspend_client name w)) = procs w"
  by (cases "files w BLOCKLIST_PATH") (simp_all add: unsuspend_client_absent unsuspend_client_present)

lemma TLS_TAG_cases: "TLS_TAG k = ''tls-crypt'' \<or> TLS_TAG k = ''tls-auth''"
  by (simp add: TLS_TAG_def)

lemma embed_text_not_key_direction:
  "\<not> suffix (''key-direction 1'' @ [LF]) (pre @ embed_text ''tls-crypt'' s)"
  by (simp add: embed_text_def suffix_to_prefix LF_def)

lemma key_direction_suffix:
  "suffix (''key-direction 1'' @ [LF])
     (pre @ embed_text (TLS_TAG k) s @
      (if TLS_TAG k = ''tls-auth'' then ''key-direction 1'' @ [LF] else []))
   = (TLS_TAG k = ''tls-auth'')"
proof (cases "TLS_TAG k = ''tls-auth''")
  case True
  have "suffix (''key-direction 1'' @ [LF])
     ((pre @ embed_text ''tls-auth'' s) @ (''key-direction 1'' @ [LF]))"
    by (simp only: suffix_appendI [OF suffix_order.refl])
  then show ?thesis using True by simp
next
  case False
  then have "TLS_TAG k = ''tls-crypt''" using TLS_TAG_cases [of k] by simp
  then show ?thesis using False embed_text_not_key_direction [of pre s] by simp
qed

section \<open>The claims\<close>

text \<open>
  C1. The claim: calling \<^verbatim>\<open>suspend_client(x)\<close> twice leaves \<open>x\<close> on the block-list
  exactly once, the second call being a no-op with a note. The code logs the note
  (\<^verbatim>\<open>already suspended\<close>) and then falls through to the write, which appends the name
  again: from an empty server, two calls for \<open>alice\<close> leave that name on two lines.
\<close>

theorem suspend_client_twice_appends_twice:
  "fst (suspend_client ''alice'' (snd (suspend_client ''alice'' empty_world))) = Inr () \<and>
   files (snd (suspend_client ''alice'' (snd (suspend_client ''alice'' empty_world)))) BLOCKLIST_PATH
     = Some (''alice'' @ [LF] @ ''alice'' @ [LF]) \<and>
   splitlines (''alice'' @ [LF] @ ''alice'' @ [LF]) = [''alice'', ''alice''] \<and>
   log (snd (suspend_client ''alice'' (snd (suspend_client ''alice'' empty_world))))
     = [(INFO, Suspended ''alice''), (INFO, AlreadySuspended ''alice''), (INFO, Suspended ''alice'')]"
  by code_simp

text \<open>
  C2. The claim: after any sequence of suspend and unsuspend calls, the listing is the
  set the calls build, without duplicates. The same fall-through breaks it: after two
  suspend calls for \<open>alice\<close>, \<^verbatim>\<open>list_blocked()\<close> prints that name twice.
\<close>

theorem list_blocked_after_two_suspends:
  "fst (list_blocked (snd (run_calls [Suspend ''alice'', Suspend ''alice''] empty_world)))
     = Inr [''alice'', ''alice''] \<and>
   \<not> distinct [''alice'', ''alice'']"
  by code_simp

text \<open>
  C3. The claim: when the backend's revoke run or its \<^verbatim>\<open>gen-crl\<close> run fails,
  \<^verbatim>\<open>revoke_client\<close> aborts with the block-list, the client's certificate and key, the
  profile and the server's revocation list unchanged. \<^verbatim>\<open>revoke_client\<close> undoes nothing
  the backend did. As amended: when one of the two runs exits with a non-zero status,
  the call raises \<^verbatim>\<open>CalledProcessError\<close> for that run and has done no file operation of
  its own: the files are exactly those the failing run left, and no further process
  was started. (A name with a NUL character never reaches the backend: the call
  raises \<^verbatim>\<open>ValueError\<close> with the world as it was.)
\<close>

theorem revoke_client_failure_keeps_backend_files:
  assumes failed:
      "returncode (backend [EASYRSA_BIN, ''revoke'', name] (Some (''yes'' @ [LF])) (files w)) \<noteq> 0 \<or>
       returncode (backend [EASYRSA_BIN, ''gen-crl''] None
         (files_after (backend [EASYRSA_BIN, ''revoke'', name] (Some (''yes'' @ [LF])) (files w)))) \<noteq> 0"
  shows
    "fst (revoke_client backend name w) =
       Inl (if has_nul name then ValueError ''embedded null byte''
            else if returncode (backend [EASYRSA_BIN, ''revoke'', name] (Some (''yes'' @ [LF])) (files w)) \<noteq> 0
            then CalledProcessError
                   (returncode (backend [EASYRSA_BIN, ''revoke'', name] (Some (''yes'' @ [LF])) (files w)))
                   [EASYRSA_BIN, ''revoke'', name]
            else CalledProcessError
                   (returncode (backend [EASYRSA_BIN, ''gen-crl''] None
                      (files_after (backend [EASYRSA_BIN, ''revoke'', name] (Some (''yes'' @ [LF])) (files w)))))
                   [EASYRSA_BIN, ''gen-crl'']) \<and>
     files (snd (revoke_client backend name w)) =
       (if has_nul name then files w
        else if returncode (backend [EASYRSA_BIN, ''revoke'', name] (Some (''yes'' @ [LF])) (files w)) \<noteq> 0
        then files_after (backend [EASYRSA_BIN, ''revoke'', name] (Some (''yes'' @ [LF])) (files w))
        else files_after (backend [EASYRSA_BIN, ''gen-crl''] None
               (files_after (backend [EASYRSA_BIN, ''revoke'', name] (Some (''yes'' @ [LF])) (files w))))) \<and>
     procs (snd (revoke_client backend name w)) =
       (if has_nul name then procs w
        else if returncode (backend [EASYRSA_BIN, ''revoke'', name] (Some (''yes'' @ [LF])) (files w)) \<noteq> 0
        then procs w @ [[EASYRSA_BIN, ''revoke'', name]]
        else procs w @ [[EASYRSA_BIN, ''revoke'', name], [EASYRSA_BIN, ''gen-crl'']])"
proof (cases "has_nul name")
  case True
  then have "run_easy_rsa backend [''revoke'', name] w = (Inl (ValueError ''embedded null byte''), w)"
    by (intro run_easy_rsa_nul) simp
  then have "revoke_client backend name w = (Inl (ValueError ''embedded null byte''), w)"
    by (simp add: revoke_client_def io_then_def io_bind_def)
  then show ?thesis using True by simp
next
  case False
  let ?m1 = "run_easy_rsa backend [''revoke'', name]"
  let ?m2 = "run_easy_rsa backend [''gen-crl'']"
  let ?r1 = "backend [EASYRSA_BIN, ''revoke'', name] (Some (''yes'' @ [LF])) (files w)"
  let ?r2 = "backend [EASYRSA_BIN, ''gen-crl''] None (files_after ?r1)"
  have nn1: "\<not> list_ex has_nul [''revoke'', name]" using False by simp
  have nn2: "\<not> list_ex has_nul [''gen-crl'']" by simp
  have res1: "run_result backend [''revoke'', name] w = ?r1"
    by (simp add: run_result_def)
  have files1: "files (snd (?m1 w)) = files_after ?r1"
    using run_easy_rsa_files [OF nn1, of backend w] res1 by simp
  have procs1: "procs (snd (?m1 w)) = procs w @ [[EASYRSA_BIN, ''revoke'', name]]"
    using run_easy_rsa_procs [OF nn1, of backend w] by simp
  show ?thesis
  proof (cases "returncode ?r1 = 0")
    case rc1: False
    then have "fst (?m1 w) = Inl (CalledProcessError (returncode ?r1) [EASYRSA_BIN, ''revoke'', name])"
      using run_easy_rsa_failed [OF nn1, of backend w] res1 by simp
    then have "revoke_client backend name w =
        (Inl (CalledProcessError (returncode ?r1) [EASYRSA_BIN, ''revoke'', name]), snd (?m1 w))"
      unfolding revoke_client_def by (rule io_then_Inl)
    then show ?thesis using False rc1 files1 procs1 by simp
  next
    case rc1: True
    then have ok1: "fst (?m1 w) = Inr ()"
      using run_easy_rsa_ok [OF nn1, of backend w] res1 by simp
    have res2: "run_result backend [''gen-crl''] (snd (?m1 w)) = ?r2"
      by (simp add: run_result_def files1)
    have rc2: "returncode ?r2 \<noteq> 0"
      using rc1 failed by simp
    then have "fst (?m2 (snd (?m1 w))) =
        Inl (CalledProcessError (returncode ?r2) [EASYRSA_BIN, ''gen-crl''])"
      using run_easy_rsa_failed [OF nn2, of backend "snd (?m1 w)"] res2 by simp
    then have "revoke_client backend name w =
        (Inl (CalledProcessError (returncode ?r2) [EASYRSA_BIN, ''gen-crl'']), snd (?m2 (snd (?m1 w))))"
      unfolding revoke_client_def
        io_then_Inr [of "run_easy_rsa backend [''revoke'', name]" w "()", OF ok1]
      by (rule io_then_Inl)
    moreover have "files (snd (?m2 (snd (?m1 w)))) = files_after ?r2"
      using run_easy_rsa_files [OF nn2, of backend "snd (?m1 w)"] res2 by simp
    moreover have "procs (snd (?m2 (snd (?m1 w)))) =
        procs w @ [[EASYRSA_BIN, ''revoke'', name], [EASYRSA_BIN, ''gen-crl'']]"
      using run_easy_rsa_procs [OF nn2, of backend "snd (?m1 w)"] procs1 by simp
    ultimately show ?thesis using False rc1 by simp
  qed
qed

theorem revoke_client_failure_keeps_backend_files_witness:
  "fst (revoke_client failing_backend ''alice'' alice_world)
     = Inl (CalledProcessError 1 [EASYRSA_BIN, ''revoke'', ''alice'']) \<and>
   files (snd (revoke_client failing_backend ''alice'' alice_world)) = files alice_world \<and>
   fst (revoke_client gencrl_failing_backend ''alice'' alice_world)
     = Inl (CalledProcessError 1 [EASYRSA_BIN, ''gen-crl'']) \<and>
   files (snd (revoke_client gencrl_failing_backend ''alice'' alice_world)) = files alice_world \<and>
   procs (snd (revoke_client gencrl_failing_backend ''alice'' alice_world))
     = [[EASYRSA_BIN, ''revoke'', ''alice''], [EASYRSA_BIN, ''gen-crl'']]"
proof -
  have n: "\<not> has_nul ''alice''" by (simp add: has_nul_def)
  have p: "procs alice_world = []" by (simp add: alice_world_def)
  have f1:
    "returncode (failing_backend [EASYRSA_BIN, ''revoke'', ''alice''] (Some (''yes'' @ [LF]))
        (files alice_world)) \<noteq> 0 \<or>
     returncode (failing_backend [EASYRSA_BIN, ''gen-crl''] None
        (files_after (failing_backend [EASYRSA_BIN, ''revoke'', ''alice'']
           (Some (''yes'' @ [LF])) (files alice_world)))) \<noteq> 0"
    by (simp add: failing_backend_def)
  have f2:
    "returncode (gencrl_failing_backend [EASYRSA_BIN, ''revoke'', ''alice''] (Some (''yes'' @ [LF]))
        (files alice_world)) \<noteq> 0 \<or>
     returncode (gencrl_failing_backend [EASYRSA_BIN, ''gen-crl''] None
        (files_after (gencrl_failing_backend [EASYRSA_BIN, ''revoke'', ''alice'']
           (Some (''yes'' @ [LF])) (files alice_world)))) \<noteq> 0"
    by (simp add: gencrl_failing_backend_def)
  have bin: "EASYRSA_BIN = ''/etc/openvpn/server/easy-rsa/easyrsa''"
    by code_simp
  have r1: "returncode (failing_backend c i F) = 1" "files_after (failing_backend c i F) = F"
    for c i F by (simp_all add: failing_backend_def)
  have r2: "returncode (gencrl_failing_backend c i F) = (if ''gen-crl'' \<in> set c then 1 else 0)"
    "files_after (gencrl_failing_backend c i F) = F"
    for c i F by (simp_all add: gencrl_failing_backend_def)
  show ?thesis
    using revoke_client_failure_keeps_backend_files [OF f1]
      revoke_client_failure_keeps_backend_files [OF f2] n p
    by (simp add: r1 r2 bin)
qed

text \<open>
  The backend may change the files the claim names before it fails: with a backend
  whose revoke run moves the certificate and the key and whose \<^verbatim>\<open>gen-crl\<close> run then
  exits with status 1, the call aborts and both artifacts are gone.
\<close>

theorem revoke_client_backend_moved_artifacts:
  "fst (revoke_client moving_backend ''alice'' alice_world)
     = Inl (CalledProcessError 1 [EASYRSA_BIN, ''gen-crl'']) \<and>
   files alice_world (joinpath (joinpath pki_dir ''issued'') ''alice.crt'') = Some ''CERT'' \<and>
   files (snd (revoke_client moving_backend ''alice'' alice_world))
     (joinpath (joinpath pki_dir ''issued'') ''alice.crt'') = None \<and>
   files alice_world (joinpath (joinpath pki_dir ''private'') ''alice.key'') = Some ''KEY'' \<and>
   files (snd (revoke_client moving_backend ''alice'' alice_world))
     (joinpath (joinpath pki_dir ''private'') ''alice.key'') = None"
  by code_simp

text \<open>
  C4. The claim: a successful \<^verbatim>\<open>revoke_client(name)\<close> deletes the client's certificate,
  private key and profile and takes the name off the block-list. The cleanup loop
  unlinks \<^verbatim>\<open>pki/private/<name>.crt\<close>, while the key that \<^verbatim>\<open>generate_client\<close> reads is
  \<^verbatim>\<open>pki/private/<name>.key\<close>: with a backend that revokes, writes the revocation list
  and touches nothing else, the certificate and the profile are gone and the
  block-list is cleared, but the private key is still there.
\<close>

theorem revoke_client_keeps_private_key:
  "fst (revoke_client crl_backend ''alice'' alice_world) = Inr () \<and>
   files (snd (revoke_client crl_backend ''alice'' alice_world))
     (joinpath (joinpath pki_dir ''issued'') ''alice.crt'') = None \<and>
   files (snd (revoke_client crl_backend ''alice'' alice_world))
     (joinpath OUTPUT_DIR ''alice.ovpn'') = None \<and>
   files (snd (revoke_client crl_backend ''alice'' alice_world)) BLOCKLIST_PATH = Some [] \<and>
   files (snd (revoke_client crl_backend ''alice'' alice_world)) CRL_PATH = Some ''NEW CRL'' \<and>
   files alice_world (joinpath (joinpath pki_dir ''private'') ''alice.key'') = Some ''KEY'' \<and>
   files (snd (revoke_client crl_backend ''alice'' alice_world))
     (joinpath (joinpath pki_dir ''private'') ''alice.key'') = Some ''KEY''"
  by code_simp

text \<open>
  C5. The claim: every operation rejects a malformed name with a \<^verbatim>\<open>ValidationError\<close>
  before any I/O. The code validates no name. As amended: for every name, malformed
  or not, \<^verbatim>\<open>suspend_client\<close> and \<^verbatim>\<open>unsuspend_client\<close> return normally,
  \<^verbatim>\<open>suspend_client\<close> writing the block-list with the name appended, and
  \<^verbatim>\<open>generate_client\<close> and \<^verbatim>\<open>revoke_client\<close> hand the name as given to the subprocess
  call: a process is started on it, unless the name holds a NUL character, which the
  subprocess call itself refuses with \<^verbatim>\<open>ValueError\<close>.
\<close>

theorem client_names_are_not_validated:
  "fst (suspend_client name w) = Inr () \<and>
   files (snd (suspend_client name w)) BLOCKLIST_PATH =
     Some (str_join [LF]
       (splitlines (universal_newlines (case files w BLOCKLIST_PATH of None \<Rightarrow> [] | Some c \<Rightarrow> c))
        @ [name]) @ [LF]) \<and>
   fst (unsuspend_client name w) = Inr () \<and>
   (if has_nul name
    then generate_client_with k backend name password w
           = (Inl (ValueError ''embedded null byte''), w) \<and>
         revoke_client backend name w = (Inl (ValueError ''embedded null byte''), w)
    else procs (snd (generate_client_with k backend name password w)) =
           procs w @ [EASYRSA_BIN # ''build-client-full'' # name # (if password then [] else [''nopass''])] \<and>
         prefix (procs w @ [[EASYRSA_BIN, ''revoke'', name]])
           (procs (snd (revoke_client backend name w))))"
proof -
  have s: "fst (suspend_client name w) = Inr () \<and>
   files (snd (suspend_client name w)) BLOCKLIST_PATH =
     Some (str_join [LF]
       (splitlines (universal_newlines (case files w BLOCKLIST_PATH of None \<Rightarrow> [] | Some c \<Rightarrow> c))
        @ [name]) @ [LF])"
    by (simp add: suspend_client_appends)
  have u: "fst (unsuspend_client name w) = Inr ()"
    by (simp add: unsuspend_client_procs)
  define build where "build = [''build-client-full'', name] @ (if \<not> password then [''nopass''] else [])"
  let ?g1 = "run_easy_rsa backend build"
  let ?r1 = "run_easy_rsa backend [''revoke'', name]"
  show ?thesis
  proof (cases "has_nul name")
    case True
    then have "?g1 w = (Inl (ValueError ''embedded null byte''), w)"
      unfolding build_def by (intro run_easy_rsa_nul) simp
    then have g: "generate_client_with k backend name password w
        = (Inl (ValueError ''embedded null byte''), w)"
      unfolding generate_client_with_def build_def [symmetric]
      by (simp add: io_then_def io_bind_def)
    have "?r1 w = (Inl (ValueError ''embedded null byte''), w)"
      using True by (intro run_easy_rsa_nul) simp
    then have "revoke_client backend name w = (Inl (ValueError ''embedded null byte''), w)"
      by (simp add: revoke_client_def io_then_def io_bind_def)
    then show ?thesis using True s u g by simp
  next
    case False
    have nb: "\<not> list_ex has_nul build" using False by (simp add: build_def)
    have nr: "\<not> list_ex has_nul [''revoke'', name]" using False by simp
    have ng: "\<not> list_ex has_nul [''gen-crl'']" by simp
    have p1: "procs (snd (?g1 w)) = procs w @ [EASYRSA_BIN # build]"
      using nb by (rule run_easy_rsa_procs)
    have g: "procs (snd (generate_client_with k backend name password w)) = procs (snd (?g1 w))"
    proof (cases "fst (?g1 w)")
      case (Inl e)
      show ?thesis
        unfolding generate_client_with_def build_def [symmetric] io_then_Inl [of ?g1 w e, OF Inl]
        by simp
    next
      case (Inr x)
      show ?thesis
        unfolding generate_client_with_def build_def [symmetric] io_then_Inr [of ?g1 w x, OF Inr]
        by (simp add: io_defs embed_def Let_def split: option.splits)
    qed
    let ?v1 = "snd (?r1 w)"
    have q1: "procs ?v1 = procs w @ [[EASYRSA_BIN, ''revoke'', name]]"
      using run_easy_rsa_procs [OF nr, of backend w] by simp
    have r: "prefix (procs ?v1) (procs (snd (revoke_client backend name w)))"
    proof (cases "fst (?r1 w)")
      case (Inl e)
      show ?thesis unfolding revoke_client_def io_then_Inl [of ?r1 w e, OF Inl] by simp
    next
      case (Inr x)
      let ?r2 = "run_easy_rsa backend [''gen-crl'']"
      have q2: "procs (snd (?r2 ?v1)) = procs ?v1 @ [[EASYRSA_BIN, ''gen-crl'']]"
        using run_easy_rsa_procs [OF ng, of backend ?v1] by simp
      show ?thesis
      proof (cases "fst (?r2 ?v1)")
        case (Inl e)
        show ?thesis
          unfolding revoke_client_def io_then_Inr [of ?r1 w x, OF Inr] io_then_Inl [of ?r2 ?v1 e, OF Inl]
          by (simp add: q2)
      next
        case (Inr y)
        note Inr2 = Inr
        have "procs (snd (revoke_client backend name w)) = procs (snd (?r2 ?v1))"
          unfolding revoke_client_def io_then_Inr [of ?r1 w x, OF \<open>fst (?r1 w) = Inr x\<close>]
            io_then_Inr [of ?r2 ?v1 y, OF Inr2]
          by (simp add: io_defs refresh_crl_def unsuspend_client_def Let_def split: option.splits)
        then show ?thesis by (simp add: q2)
      qed
    qed
    have "EASYRSA_BIN # build =
        EASYRSA_BIN # ''build-client-full'' # name # (if password then [] else [''nopass''])"
      by (simp add: build_def)
    then show ?thesis using False s u g p1 r q1 by simp
  qed
qed

text \<open>
  A name with a path separator and a newline, and the empty name, are accepted:
  \<^verbatim>\<open>suspend_client\<close> writes them to the block-list, and \<^verbatim>\<open>generate_client\<close> runs the
  backend on the empty name.
\<close>

theorem malformed_name_not_rejected:
  "fst (suspend_client (''../evil'' @ [LF] @ ''x'') empty_world) = Inr () \<and>
   files empty_world BLOCKLIST_PATH = None \<and>
   files (snd (suspend_client (''../evil'' @ [LF] @ ''x'') empty_world)) BLOCKLIST_PATH
     = Some (''../evil'' @ [LF] @ ''x'' @ [LF]) \<and>
   fst (suspend_client [] empty_world) = Inr () \<and>
   files (snd (suspend_client [] empty_world)) BLOCKLIST_PATH = Some [LF] \<and>
   procs (snd (generate_client failing_backend [] False empty_world))
     = [[EASYRSA_BIN, ''build-client-full'', [], ''nopass'']]"
  by code_simp

text \<open>
  C6. When both backend runs happen (the name holds no NUL character) and exit with
  status 0, and \<^verbatim>\<open>pki/crl.pem\<close> is missing afterwards, \<^verbatim>\<open>revoke_client\<close> raises
  \<^verbatim>\<open>RuntimeError\<close> from \<^verbatim>\<open>_refresh_crl\<close>; it does not go on to the cleanup: the files
  are the ones the backend left.
\<close>

theorem revoke_client_missing_crl_raises:
  assumes "\<not> has_nul name"
    and "returncode (backend [EASYRSA_BIN, ''revoke'', name] (Some (''yes'' @ [LF])) (files w)) = 0"
    and "returncode (backend [EASYRSA_BIN, ''gen-crl''] None
           (files_after (backend [EASYRSA_BIN, ''revoke'', name] (Some (''yes'' @ [LF])) (files w)))) = 0"
    and "files_after (backend [EASYRSA_BIN, ''gen-crl''] None
           (files_after (backend [EASYRSA_BIN, ''revoke'', name] (Some (''yes'' @ [LF])) (files w))))
           (joinpath pki_dir ''crl.pem'') = None"
  shows "fst (revoke_client backend name w) = Inl (RuntimeError ''crl.pem not found after gen-crl'') \<and>
         files (snd (revoke_client backend name w)) =
           files_after (backend [EASYRSA_BIN, ''gen-crl''] None
             (files_after (backend [EASYRSA_BIN, ''revoke'', name] (Some (''yes'' @ [LF])) (files w))))"
proof -
  let ?m1 = "run_easy_rsa backend [''revoke'', name]"
  let ?m2 = "run_easy_rsa backend [''gen-crl'']"
  let ?w1 = "snd (?m1 w)"
  let ?w2 = "snd (?m2 ?w1)"
  have nn1: "\<not> list_ex has_nul [''revoke'', name]" using assms(1) by simp
  have nn2: "\<not> list_ex has_nul [''gen-crl'']" by simp
  have ok1: "fst (?m1 w) = Inr ()"
    using assms(2) by (intro run_easy_rsa_ok [OF nn1]) (simp add: run_result_def)
  have f1: "files ?w1 = files_after (backend [EASYRSA_BIN, ''revoke'', name] (Some (''yes'' @ [LF])) (files w))"
    using run_easy_rsa_files [OF nn1, of backend w] by (simp add: run_result_def)
  have ok2: "fst (?m2 ?w1) = Inr ()"
    using assms(3) f1 by (intro run_easy_rsa_ok [OF nn2]) (simp add: run_result_def)
  have f2: "files ?w2 = files_after (backend [EASYRSA_BIN, ''gen-crl''] None
             (files_after (backend [EASYRSA_BIN, ''revoke'', name] (Some (''yes'' @ [LF])) (files w))))"
    using f1 run_easy_rsa_files [OF nn2, of backend ?w1] by (simp add: run_result_def)
  have "refresh_crl ?w2 = (Inl (RuntimeError ''crl.pem not found after gen-crl''), ?w2)"
    using assms(4) f2 by (simp add: refresh_crl_def io_defs)
  then have "revoke_client backend name w = (Inl (RuntimeError ''crl.pem not found after gen-crl''), ?w2)"
    unfolding revoke_client_def
      io_then_Inr [of "run_easy_rsa backend [''revoke'', name]" w "()", OF ok1]
      io_then_Inr [of "run_easy_rsa backend [''gen-crl'']" "snd (run_easy_rsa backend [''revoke'', name] w)" "()", OF ok2]
    by (simp add: io_then_def io_bind_def)
  then show ?thesis using f2 by simp
qed

theorem revoke_client_missing_crl_raises_witness:
  "fst (revoke_client idle_backend ''alice'' alice_world)
     = Inl (RuntimeError ''crl.pem not found after gen-crl'') \<and>
   files (snd (revoke_client idle_backend ''alice'' alice_world)) = files alice_world"
proof -
  have 0: "\<not> has_nul ''alice''"
    by (simp add: has_nul_def)
  have 1: "returncode (idle_backend [EASYRSA_BIN, ''revoke'', ''alice''] (Some (''yes'' @ [LF])) (files alice_world)) = 0"
    by (simp add: idle_backend_def)
  have 2: "returncode (idle_backend [EASYRSA_BIN, ''gen-crl''] None
           (files_after (idle_backend [EASYRSA_BIN, ''revoke'', ''alice''] (Some (''yes'' @ [LF])) (files alice_world)))) = 0"
    by (simp add: idle_backend_def)
  have "files alice_world (joinpath pki_dir ''crl.pem'') = None"
    by code_simp
  then have 3: "files_after (idle_backend [EASYRSA_BIN, ''gen-crl''] None
           (files_after (idle_backend [EASYRSA_BIN, ''revoke'', ''alice''] (Some (''yes'' @ [LF])) (files alice_world))))
           (joinpath pki_dir ''crl.pem'') = None"
    by (simp add: idle_backend_def)
  show ?thesis
    using revoke_client_missing_crl_raises [of "''alice''" idle_backend alice_world, OF 0 1 2 3]
    by (simp add: idle_backend_def)
qed

text \<open>
  C7. With the shipped key file (\<^verbatim>\<open>tc.key\<close>, the wrapped-trust mode), the template
  \<^verbatim>\<open>T\n\<close> and the four credentials \<open>X\<close>, the profile text is exactly the template
  followed by the \<^verbatim>\<open>ca\<close>, \<^verbatim>\<open>cert\<close>, \<^verbatim>\<open>key\<close> and \<^verbatim>\<open>tls-crypt\<close> blocks, with no
  direction line; \<^verbatim>\<open>generate_client\<close> writes that text on a server holding these files.
\<close>

theorem render_wrapped_trust_example:
  "render TLS_KEY (''T'' @ [LF]) ''X'' ''X'' ''X'' ''X''
     = ''T\<newline><ca>\<newline>X\<newline></ca>\<newline><cert>\<newline>X\<newline></cert>\<newline><key>\<newline>X\<newline></key>\<newline><tls-crypt>\<newline>X\<newline></tls-crypt>\<newline>'' \<and>
   fst (generate_client idle_backend ''bob'' False render_world)
     = Inr (joinpath OUTPUT_DIR ''bob.ovpn'') \<and>
   files (snd (generate_client idle_backend ''bob'' False render_world)) (joinpath OUTPUT_DIR ''bob.ovpn'')
     = Some ''T\<newline><ca>\<newline>X\<newline></ca>\<newline><cert>\<newline>X\<newline></cert>\<newline><key>\<newline>X\<newline></key>\<newline><tls-crypt>\<newline>X\<newline></tls-crypt>\<newline>'' \<and>
   ADD_KEY_DIRECTION TLS_KEY = False"
  by code_simp

text \<open>
  C8. The claim: the profile ends with the line \<^verbatim>\<open>key-direction 1\<close>, appended after the
  trust block, iff the mode is \<^verbatim>\<open>tls-auth\<close>, and under \<^verbatim>\<open>tls-crypt\<close> the line is never
  present. The template and the credentials are embedded as they are, so the line can
  be present under \<^verbatim>\<open>tls-crypt\<close> when one of them holds it. As amended: whenever
  \<^verbatim>\<open>generate_client\<close> returns, the profile it wrote is the template and the four blocks
  of the texts it read, followed by the line \<^verbatim>\<open>key-direction 1\<close> exactly when the tag is
  \<^verbatim>\<open>tls-auth\<close>: the profile ends with that line iff the mode is \<^verbatim>\<open>tls-auth\<close>, and under
  \<^verbatim>\<open>tls-crypt\<close> nothing follows the trust block.
\<close>

theorem generate_client_key_direction:
  assumes ok: "fst (generate_client_with k backend name password w) = Inr out"
  shows "\<exists>t a c p s.
    files_after (run_result backend
        ([''build-client-full'', name] @ (if \<not> password then [''nopass''] else [])) w)
      BASE_OVPN_TEMPLATE = Some t \<and>
    files_after (run_result backend
        ([''build-client-full'', name] @ (if \<not> password then [''nopass''] else [])) w)
      (joinpath pki_dir ''ca.crt'') = Some a \<and>
    files_after (run_result backend
        ([''build-client-full'', name] @ (if \<not> password then [''nopass''] else [])) w)
      (joinpath (joinpath pki_dir ''issued'') (name @ ''.crt'')) = Some c \<and>
    files_after (run_result backend
        ([''build-client-full'', name] @ (if \<not> password then [''nopass''] else [])) w)
      (joinpath (joinpath pki_dir ''private'') (name @ ''.key'')) = Some p \<and>
    files_after (run_result backend
        ([''build-client-full'', name] @ (if \<not> password then [''nopass''] else [])) w)
      k = Some s \<and>
    out = joinpath OUTPUT_DIR (name @ ''.ovpn'') \<and>
    files (snd (generate_client_with k backend name password w)) out =
      Some ((rstrip (universal_newlines t) @ [LF]) @
            embed_text ''ca'' (universal_newlines a) @
            embed_text ''cert'' (universal_newlines c) @
            embed_text ''key'' (universal_newlines p) @
            embed_text (TLS_TAG k) (universal_newlines s) @
            (if TLS_TAG k = ''tls-auth'' then ''key-direction 1'' @ [LF] else [])) \<and>
    suffix (''key-direction 1'' @ [LF])
      ((rstrip (universal_newlines t) @ [LF]) @
       embed_text ''ca'' (universal_newlines a) @
       embed_text ''cert'' (universal_newlines c) @
       embed_text ''key'' (universal_newlines p) @
       embed_text (TLS_TAG k) (universal_newlines s) @
       (if TLS_TAG k = ''tls-auth'' then ''key-direction 1'' @ [LF] else []))
      = (TLS_TAG k = ''tls-auth'')"
proof -
  define build where "build = [''build-client-full'', name] @ (if \<not> password then [''nopass''] else [])"
  define w1 where "w1 = snd (run_easy_rsa backend build w)"
  have ok1: "fst (run_easy_rsa backend build w) = Inr ()"
  proof (cases "fst (run_easy_rsa backend build w)")
    case (Inl e)
    then show ?thesis
      using ok unfolding generate_client_with_def build_def [symmetric]
        io_then_Inl [of "run_easy_rsa backend build" w e, OF Inl]
      by simp
  next
    case (Inr x)
    then show ?thesis by simp
  qed
  have nb: "\<not> list_ex has_nul build"
    using ok1 by (rule run_easy_rsa_Inr)
  have f: "files w1 = files_after (run_result backend build w)"
    unfolding w1_def using nb by (rule run_easy_rsa_files)
  have sfx: "suffix (''key-direction 1'' @ [LF])
      ((rstrip t @ [LF]) @ embed_text ''ca'' a @ embed_text ''cert'' c @ embed_text ''key'' p @
       embed_text (TLS_TAG k) s @
       (if TLS_TAG k = ''tls-auth'' then ''key-direction 1'' @ [LF] else []))
      = (TLS_TAG k = ''tls-auth'')" for t a c p s
    using key_direction_suffix
      [of "(rstrip t @ [LF]) @ embed_text ''ca'' a @ embed_text ''cert'' c @ embed_text ''key'' p" k s]
    by simp
  have "fst (generate_client_with k backend name password w) = Inr out"
    by (rule ok)
  then have "\<exists>t a c p s.
    files w1 BASE_OVPN_TEMPLATE = Some t \<and>
    files w1 (joinpath pki_dir ''ca.crt'') = Some a \<and>
    files w1 (joinpath (joinpath pki_dir ''issued'') (name @ ''.crt'')) = Some c \<and>
    files w1 (joinpath (joinpath pki_dir ''private'') (name @ ''.key'')) = Some p \<and>
    files w1 k = Some s \<and>
    out = joinpath OUTPUT_DIR (name @ ''.ovpn'') \<and>
    files (snd (generate_client_with k backend name password w)) out =
      Some ((rstrip (universal_newlines t) @ [LF]) @
            embed_text ''ca'' (universal_newlines a) @
            embed_text ''cert'' (universal_newlines c) @
            embed_text ''key'' (universal_newlines p) @
            embed_text (TLS_TAG k) (universal_newlines s) @
            (if TLS_TAG k = ''tls-auth'' then ''key-direction 1'' @ [LF] else []))"
    unfolding generate_client_with_def build_def [symmetric]
      io_then_Inr [of "run_easy_rsa backend build" w "()", OF ok1] w1_def [symmetric]
    by (simp add: io_defs embed_def Let_def ADD_KEY_DIRECTION_def
        split: option.splits if_splits)
  then obtain t a c p s where h:
    "files w1 BASE_OVPN_TEMPLATE = Some t"
    "files w1 (joinpath pki_dir ''ca.crt'') = Some a"
    "files w1 (joinpath (joinpath pki_dir ''issued'') (name @ ''.crt'')) = Some c"
    "files w1 (joinpath (joinpath pki_dir ''private'') (name @ ''.key'')) = Some p"
    "files w1 k = Some s"
    "out = joinpath OUTPUT_DIR (name @ ''.ovpn'')"
    "files (snd (generate_client_with k backend name password w)) out =
      Some ((rstrip (universal_newlines t) @ [LF]) @
            embed_text ''ca'' (universal_newlines a) @
            embed_text ''cert'' (universal_newlines c) @
            embed_text ''key'' (universal_newlines p) @
            embed_text (TLS_TAG k) (universal_newlines s) @
            (if TLS_TAG k = ''tls-auth'' then ''key-direction 1'' @ [LF] else []))"
    by blast
  show ?thesis
    unfolding build_def [symmetric] w1_def [symmetric] f [symmetric]
    using h sfx [of "universal_newlines t" "universal_newlines a" "universal_newlines c" "universal_newlines p"
        "universal_newlines s"]
    by blast
qed

theorem generate_client_key_direction_witness:
  "(\<exists>content.
      files (snd (generate_client_with TA_KEY idle_backend ''bob'' False auth_world))
        (joinpath OUTPUT_DIR ''bob.ovpn'') = Some content \<and>
      suffix (''key-direction 1'' @ [LF]) content) \<and>
   (\<exists>content.
      files (snd (generate_client_with TLS_KEY idle_backend ''bob'' False render_world))
        (joinpath OUTPUT_DIR ''bob.ovpn'') = Some content \<and>
      \<not> suffix (''key-direction 1'' @ [LF]) content)"
proof -
  have ok_auth: "fst (generate_client_with TA_KEY idle_backend ''bob'' False auth_world)
      = Inr (joinpath OUTPUT_DIR ''bob.ovpn'')"
    by code_simp
  have ok_crypt: "fst (generate_client_with TLS_KEY idle_backend ''bob'' False render_world)
      = Inr (joinpath OUTPUT_DIR ''bob.ovpn'')"
    by code_simp
  have auth: "TLS_TAG TA_KEY = ''tls-auth''"
    by code_simp
  have crypt: "TLS_TAG TLS_KEY \<noteq> ''tls-auth''"
    by code_simp
  show ?thesis
    using generate_client_key_direction [OF ok_auth] generate_client_key_direction [OF ok_crypt]
      auth crypt
    by blast
qed

text \<open>
  Under the shipped \<^verbatim>\<open>tc.key\<close> (the mode \<^verbatim>\<open>tls-crypt\<close>), a template that holds the line
  \<^verbatim>\<open>key-direction 1\<close> gives a profile in which the line is present.
\<close>

theorem key_direction_present_under_tls_crypt:
  "TLS_TAG TLS_KEY = ''tls-crypt'' \<and>
   fst (generate_client idle_backend ''bob'' False marked_world)
     = Inr (joinpath OUTPUT_DIR ''bob.ovpn'') \<and>
   files (snd (generate_client idle_backend ''bob'' False marked_world)) (joinpath OUTPUT_DIR ''bob.ovpn'')
     = Some ''key-direction 1\<newline><ca>\<newline>X\<newline></ca>\<newline><cert>\<newline>X\<newline></cert>\<newline><key>\<newline>X\<newline></key>\<newline><tls-crypt>\<newline>X\<newline></tls-crypt>\<newline>'' \<and>
   ''key-direction 1'' \<in> set (splitlines
     ''key-direction 1\<newline><ca>\<newline>X\<newline></ca>\<newline><cert>\<newline>X\<newline></cert>\<newline><key>\<newline>X\<newline></key>\<newline><tls-crypt>\<newline>X\<newline></tls-crypt>\<newline>'')"
  by code_simp

text \<open>
  C9. The claim: a handler of a mutating route rejects every request whose key does
  not match the configured one. \<^verbatim>\<open>get_api_key\<close> skips the comparison when no key is
  configured. As amended, for each of the four handlers: a request whose header is
  missing or empty is refused by the framework, whatever is configured; when a key is
  configured (it is not empty) and the presented key differs from it, the handler
  raises the 401 exception; in both cases no operation of the service runs, the world
  being the one before the request with at most one warning logged. When no key is
  configured, a request with any non-empty key is served: the handler's body runs
  after one warning is logged.
\<close>

theorem handlers_authenticate:
  "((header = None \<or> header = Some []) \<longrightarrow>
      api_create_client refusal API_KEY backend header client w = (Inl refusal, w) \<and>
      api_revoke_client refusal API_KEY backend header name w = (Inl refusal, w) \<and>
      api_suspend_client refusal API_KEY header name w = (Inl refusal, w) \<and>
      api_unsuspend_client refusal API_KEY header name w = (Inl refusal, w)) \<and>
   (API_KEY \<noteq> [] \<and> header = Some api_key \<and> api_key \<noteq> [] \<and> api_key \<noteq> API_KEY \<longrightarrow>
      api_create_client refusal API_KEY backend header client w =
        (Inl (HTTPException 401 (DetailText ''Invalid API Key'')),
         w\<lparr>log := log w @ [(WARNING, InvalidApiKeyAttempt)]\<rparr>) \<and>
      api_revoke_client refusal API_KEY backend header name w =
        (Inl (HTTPException 401 (DetailText ''Invalid API Key'')),
         w\<lparr>log := log w @ [(WARNING, InvalidApiKeyAttempt)]\<rparr>) \<and>
      api_suspend_client refusal API_KEY header name w =
        (Inl (HTTPException 401 (DetailText ''Invalid API Key'')),
         w\<lparr>log := log w @ [(WARNING, InvalidApiKeyAttempt)]\<rparr>) \<and>
      api_unsuspend_client refusal API_KEY header name w =
        (Inl (HTTPException 401 (DetailText ''Invalid API Key'')),
         w\<lparr>log := log w @ [(WARNING, InvalidApiKeyAttempt)]\<rparr>)) \<and>
   (API_KEY = [] \<and> header = Some api_key \<and> api_key \<noteq> [] \<longrightarrow>
      api_create_client refusal API_KEY backend header client w =
        create_client_body backend client (w\<lparr>log := log w @ [(WARNING, NoApiKeySet)]\<rparr>) \<and>
      api_revoke_client refusal API_KEY backend header name w =
        revoke_client_body backend name (w\<lparr>log := log w @ [(WARNING, NoApiKeySet)]\<rparr>) \<and>
      api_suspend_client refusal API_KEY header name w =
        suspend_client_body name (w\<lparr>log := log w @ [(WARNING, NoApiKeySet)]\<rparr>) \<and>
      api_unsuspend_client refusal API_KEY header name w =
        unsuspend_client_body name (w\<lparr>log := log w @ [(WARNING, NoApiKeySet)]\<rparr>) \<and>
      fst (api_suspend_client refusal API_KEY header name w) =
        Inr \<lparr>resp_name = name, resp_message = ''Client '' @ name @ '' suspended successfully'',
             resp_config_path = None\<rparr> \<and>
      files (snd (api_suspend_client refusal API_KEY header name w)) BLOCKLIST_PATH =
        Some (str_join [LF]
          (splitlines (universal_newlines (case files w BLOCKLIST_PATH of None \<Rightarrow> [] | Some c \<Rightarrow> c))
           @ [name]) @ [LF]))"
proof -
  have refused: "authenticate refusal API_KEY header w = (Inl refusal, w)"
    if "header = None \<or> header = Some []"
    using that by (auto simp add: authenticate_def api_key_header_def io_defs)
  have wrong: "authenticate refusal API_KEY header w =
      (Inl (HTTPException 401 (DetailText ''Invalid API Key'')),
       w\<lparr>log := log w @ [(WARNING, InvalidApiKeyAttempt)]\<rparr>)"
    if "API_KEY \<noteq> []" "header = Some api_key" "api_key \<noteq> []" "api_key \<noteq> API_KEY"
    using that by (simp add: authenticate_def api_key_header_def get_api_key_def io_defs)
  have skipped: "authenticate refusal API_KEY header w =
      (Inr api_key, w\<lparr>log := log w @ [(WARNING, NoApiKeySet)]\<rparr>)"
    if "API_KEY = []" "header = Some api_key" "api_key \<noteq> []"
    using that by (simp add: authenticate_def api_key_header_def get_api_key_def io_defs)
  have stop: "io_then (authenticate refusal API_KEY header) body w = (Inl e, w')"
    if "authenticate refusal API_KEY header w = (Inl e, w')" for body :: "(http_exception, ClientResponse) io" and e w'
    using that by (simp add: io_then_def io_bind_def)
  have go: "io_then (authenticate refusal API_KEY header) body w = body w'"
    if "authenticate refusal API_KEY header w = (Inr x, w')" for body :: "(http_exception, ClientResponse) io" and x w'
    using that by (simp add: io_then_def io_bind_def)
  have served: "fst (suspend_client_body name v) =
        Inr \<lparr>resp_name = name, resp_message = ''Client '' @ name @ '' suspended successfully'',
             resp_config_path = None\<rparr> \<and>
      files (snd (suspend_client_body name v)) BLOCKLIST_PATH =
        Some (str_join [LF]
          (splitlines (universal_newlines (case files v BLOCKLIST_PATH of None \<Rightarrow> [] | Some c \<Rightarrow> c))
           @ [name]) @ [LF])" for v
    by (simp add: suspend_client_body_def try_service_def io_then_def io_bind_def logger_def
        suspend_client_appends)
  note handlers = api_create_client_def api_revoke_client_def api_suspend_client_def
    api_unsuspend_client_def
  have p1: "api_create_client refusal API_KEY backend header client w = (Inl refusal, w) \<and>
      api_revoke_client refusal API_KEY backend header name w = (Inl refusal, w) \<and>
      api_suspend_client refusal API_KEY header name w = (Inl refusal, w) \<and>
      api_unsuspend_client refusal API_KEY header name w = (Inl refusal, w)"
    if h: "header = None \<or> header = Some []"
    by (simp add: handlers stop [OF refused [OF h]])
  have p2: "api_create_client refusal API_KEY backend header client w =
        (Inl (HTTPException 401 (DetailText ''Invalid API Key'')),
         w\<lparr>log := log w @ [(WARNING, InvalidApiKeyAttempt)]\<rparr>) \<and>
      api_revoke_client refusal API_KEY backend header name w =
        (Inl (HTTPException 401 (DetailText ''Invalid API Key'')),
         w\<lparr>log := log w @ [(WARNING, InvalidApiKeyAttempt)]\<rparr>) \<and>
      api_suspend_client refusal API_KEY header name w =
        (Inl (HTTPException 401 (DetailText ''Invalid API Key'')),
         w\<lparr>log := log w @ [(WARNING, InvalidApiKeyAttempt)]\<rparr>) \<and>
      api_unsuspend_client refusal API_KEY header name w =
        (Inl (HTTPException 401 (DetailText ''Invalid API Key'')),
         w\<lparr>log := log w @ [(WARNING, InvalidApiKeyAttempt)]\<rparr>)"
    if h: "API_KEY \<noteq> [] \<and> header = Some api_key \<and> api_key \<noteq> [] \<and> api_key \<noteq> API_KEY"
  proof -
    have "authenticate refusal API_KEY header w =
      (Inl (HTTPException 401 (DetailText ''Invalid API Key'')),
       w\<lparr>log := log w @ [(WARNING, InvalidApiKeyAttempt)]\<rparr>)"
      using h by (intro wrong) simp_all
    then show ?thesis by (simp add: handlers stop)
  qed
  have p3: "api_create_client refusal API_KEY backend header client w =
        create_client_body backend client (w\<lparr>log := log w @ [(WARNING, NoApiKeySet)]\<rparr>) \<and>
      api_revoke_client refusal API_KEY backend header name w =
        revoke_client_body backend name (w\<lparr>log := log w @ [(WARNING, NoApiKeySet)]\<rparr>) \<and>
      api_suspend_client refusal API_KEY header name w =
        suspend_client_body name (w\<lparr>log := log w @ [(WARNING, NoApiKeySet)]\<rparr>) \<and>
      api_unsuspend_client refusal API_KEY header name w =
        unsuspend_client_body name (w\<lparr>log := log w @ [(WARNING, NoApiKeySet)]\<rparr>) \<and>
      fst (api_suspend_client refusal API_KEY header name w) =
        Inr \<lparr>resp_name = name, resp_message = ''Client '' @ name @ '' suspended successfully'',
             resp_config_path = None\<rparr> \<and>
      files (snd (api_suspend_client refusal API_KEY header name w)) BLOCKLIST_PATH =
        Some (str_join [LF]
          (splitlines (universal_newlines (case files w BLOCKLIST_PATH of None \<Rightarrow> [] | Some c \<Rightarrow> c))
           @ [name]) @ [LF])"
    if h: "API_KEY = [] \<and> header = Some api_key \<and> api_key \<noteq> []"
  proof -
    have au: "authenticate refusal API_KEY header w =
        (Inr api_key, w\<lparr>log := log w @ [(WARNING, NoApiKeySet)]\<rparr>)"
      using h by (intro skipped) simp_all
    show ?thesis
      using served [of "w\<lparr>log := log w @ [(WARNING, NoApiKeySet)]\<rparr>"]
      by (simp add: handlers go [OF au])
  qed
  show ?thesis using p1 p2 p3 by blast
qed

theorem handlers_authenticate_witness:
  "api_suspend_client not_authenticated ''secret'' None ''alice'' alice_world
     = (Inl not_authenticated, alice_world) \<and>
   api_suspend_client not_authenticated [] (Some []) ''alice'' alice_world
     = (Inl not_authenticated, alice_world) \<and>
   api_revoke_client not_authenticated ''secret'' crl_backend (Some ''wrong'') ''alice'' alice_world =
     (Inl (HTTPException 401 (DetailText ''Invalid API Key'')),
      alice_world\<lparr>log := log alice_world @ [(WARNING, InvalidApiKeyAttempt)]\<rparr>) \<and>
   fst (api_suspend_client not_authenticated [] (Some ''wrong'') ''bob'' alice_world) =
     Inr \<lparr>resp_name = ''bob'', resp_message = ''Client '' @ ''bob'' @ '' suspended successfully'',
          resp_config_path = None\<rparr>"
proof -
  have h1: "(None :: string option) = None \<or> None = Some []"
    by simp
  have h2: "Some [] = (None :: string option) \<or> Some [] = Some ([] :: string)"
    by simp
  have h3: "''secret'' \<noteq> [] \<and> Some ''wrong'' = Some ''wrong'' \<and> ''wrong'' \<noteq> [] \<and> ''wrong'' \<noteq> ''secret''"
    by simp
  have h4: "([] :: string) = [] \<and> Some ''wrong'' = Some ''wrong'' \<and> ''wrong'' \<noteq> []"
    by simp
  have a: "api_suspend_client not_authenticated ''secret'' None ''alice'' alice_world
     = (Inl not_authenticated, alice_world)"
    using h1 handlers_authenticate [where header = None and refusal = not_authenticated
        and API_KEY = "''secret''" and w = alice_world and name = "''alice''"
        and backend = crl_backend and client = "\<lparr>req_name = ''alice'', req_use_password = False\<rparr>"
        and api_key = "[]"]
    by blast
  have b: "api_suspend_client not_authenticated [] (Some []) ''alice'' alice_world
     = (Inl not_authenticated, alice_world)"
    using h2 handlers_authenticate [where header = "Some []" and refusal = not_authenticated
        and API_KEY = "[]" and w = alice_world and name = "''alice''"
        and backend = crl_backend and client = "\<lparr>req_name = ''alice'', req_use_password = False\<rparr>"
        and api_key = "[]"]
    by blast
  have c: "api_revoke_client not_authenticated ''secret'' crl_backend (Some ''wrong'') ''alice'' alice_world =
     (Inl (HTTPException 401 (DetailText ''Invalid API Key'')),
      alice_world\<lparr>log := log alice_world @ [(WARNING, InvalidApiKeyAttempt)]\<rparr>)"
    using h3 handlers_authenticate [where header = "Some ''wrong''" and refusal = not_authenticated
        and API_KEY = "''secret''" and w = alice_world and name = "''alice''"
        and api_key = "''wrong''" and backend = crl_backend
        and client = "\<lparr>req_name = ''alice'', req_use_password = False\<rparr>"]
    by blast
  have d: "fst (api_suspend_client not_authenticated [] (Some ''wrong'') ''bob'' alice_world) =
     Inr \<lparr>resp_name = ''bob'', resp_message = ''Client '' @ ''bob'' @ '' suspended successfully'',
          resp_config_path = None\<rparr>"
    using h4 handlers_authenticate [where header = "Some ''wrong''" and refusal = not_authenticated
        and API_KEY = "[]" and w = alice_world and name = "''bob''" and api_key = "''wrong''"
        and backend = crl_backend and client = "\<lparr>req_name = ''alice'', req_use_password = False\<rparr>"]
    by blast
  show ?thesis using a b c d by blast
qed

text \<open>
  With no key configured, a request with a key that matches nothing is served: the
  suspend handler answers and the block-list is written.
\<close>

theorem unset_key_accepts_any_key:
  "''wrong'' \<noteq> ([] :: string) \<and>
   fst (api_suspend_client not_authenticated [] (Some ''wrong'') ''alice'' empty_world)
     = Inr \<lparr>resp_name = ''alice'', resp_message = ''Client alice suspended successfully'',
            resp_config_path = None\<rparr> \<and>
   files empty_world BLOCKLIST_PATH = None \<and>
   files (snd (api_suspend_client not_authenticated [] (Some ''wrong'') ''alice'' empty_world)) BLOCKLIST_PATH
     = Some (''alice'' @ [LF])"
  by code_simp

text \<open>
  C10. On an existing block-list file, \<^verbatim>\<open>unsuspend_client(x)\<close> returns normally and
  writes back the lines of the file that differ from \<open>x\<close>, in their order: reading the
  new file gives exactly those lines, \<open>x\<close> is not among them, and the new text ends
  with a newline iff a line remains (it is empty otherwise).
\<close>

theorem unsuspend_client_filters_lines:
  assumes "files w BLOCKLIST_PATH = Some c"
  shows "fst (unsuspend_client x w) = Inr () \<and>
    (\<exists>c'. files (snd (unsuspend_client x w)) BLOCKLIST_PATH = Some c' \<and>
       splitlines (universal_newlines c')
         = filter (\<lambda>line. line \<noteq> x) (splitlines (universal_newlines c)) \<and>
       x \<notin> set (splitlines (universal_newlines c')) \<and>
       c' = str_join [LF] (filter (\<lambda>line. line \<noteq> x) (splitlines (universal_newlines c))) @
            (if filter (\<lambda>line. line \<noteq> x) (splitlines (universal_newlines c)) \<noteq> [] then [LF] else []) \<and>
       suffix [LF] c' = (filter (\<lambda>line. line \<noteq> x) (splitlines (universal_newlines c)) \<noteq> []) \<and>
       (c' = []) = (filter (\<lambda>line. line \<noteq> x) (splitlines (universal_newlines c)) = []))"
proof -
  let ?kept = "filter (\<lambda>line. line \<noteq> x) (splitlines (universal_newlines c))"
  let ?c' = "str_join [LF] ?kept @ (if ?kept \<noteq> [] then [LF] else [])"
  have nb: "list_all (list_all (\<lambda>c. \<not> is_linebreak c)) ?kept"
    using splitlines_no_break [of "universal_newlines c"] by (auto simp add: list_all_iff)
  have reread: "splitlines (universal_newlines ?c') = ?kept"
  proof (cases "?kept = []")
    case True
    then show ?thesis by (simp add: splitlines_def)
  next
    case False
    have "CR \<notin> set ?c'"
      using str_join_no_CR [OF nb] by (simp add: LF_def CR_def)
    then have "universal_newlines ?c' = ?c'" by (rule universal_newlines_id)
    then show ?thesis using False splitlines_join [OF False nb] by simp
  qed
  have sfx: "suffix [LF] ?c' = (?kept \<noteq> [])"
    by (simp add: suffix_def)
  have emp: "(?c' = []) = (?kept = [])"
    by simp
  have x: "x \<notin> set ?kept" by simp
  show ?thesis
    using reread sfx emp x by (simp add: unsuspend_client_present [OF assms])
qed

theorem unsuspend_client_filters_lines_witness:
  "files (snd (unsuspend_client ''bob''
      (empty_world\<lparr>files := [BLOCKLIST_PATH \<mapsto> ''bob'' @ [LF] @ ''alice'' @ [LF] @ ''bob'' @ [LF] @ ''carol'']\<rparr>)))
     BLOCKLIST_PATH = Some (''alice'' @ [LF] @ ''carol'' @ [LF]) \<and>
   files (snd (unsuspend_client ''bob''
      (empty_world\<lparr>files := [BLOCKLIST_PATH \<mapsto> ''bob'' @ [LF] @ ''bob'']\<rparr>)))
     BLOCKLIST_PATH = Some []"
proof -
  have a: "files (empty_world\<lparr>files := [BLOCKLIST_PATH \<mapsto> ''bob'' @ [LF] @ ''alice'' @ [LF] @ ''bob'' @ [LF] @ ''carol'']\<rparr>) BLOCKLIST_PATH
      = Some (''bob'' @ [LF] @ ''alice'' @ [LF] @ ''bob'' @ [LF] @ ''carol'')"
    by simp
  have b: "files (empty_world\<lparr>files := [BLOCKLIST_PATH \<mapsto> ''bob'' @ [LF] @ ''bob'']\<rparr>) BLOCKLIST_PATH
      = Some (''bob'' @ [LF] @ ''bob'')"
    by simp
  have k1: "filter (\<lambda>line. line \<noteq> ''bob'')
        (splitlines (universal_newlines (''bob'' @ [LF] @ ''alice'' @ [LF] @ ''bob'' @ [LF] @ ''carol'')))
      = [''alice'', ''carol'']"
    by code_simp
  have k2: "filter (\<lambda>line. line \<noteq> ''bob'') (splitlines (universal_newlines (''bob'' @ [LF] @ ''bob''))) = []"
    by code_simp
  show ?thesis
    using unsuspend_client_filters_lines [OF a, of "''bob''"]
      unsuspend_client_filters_lines [OF b, of "''bob''"]
    unfolding k1 k2 by auto
qed

end
